theory Spec2Isabelle
  imports Main
begin

section \<open>Python values shared by the compiler and the client\<close>

text \<open>
  The exceptions raised by the modelled functions. \<open>TranslationError\<close> is
  \<open>ibis.common.TranslationError\<close> with its message, \<open>OutOfBoundsDatetime\<close> is pandas',
  \<open>DuplicateColumnError\<close> is the schema builder's, the others are Python built-ins.
\<close>

datatype error =
    TranslationError string
  | AssertionError
  | KeyError
  | IndexError
  | ValueError
  | AttributeError
  | NotImplementedError
  | OutOfBoundsDatetime
  | RecursionError
  | DuplicateColumnError
  | OtherException string

text \<open>The line feed written by \<open>buf.write('\n')\<close> and used by \<open>'\n'.join\<close>.\<close>

definition newline :: string where
  "newline = [CHR 0x0A]"

text \<open>\<open>d.get(k, dflt)\<close>: the value under \<open>k\<close>, or \<open>dflt\<close> when the key is missing.\<close>

definition dict_get :: "('k \<times> 'v) list \<Rightarrow> 'k \<Rightarrow> 'v \<Rightarrow> 'v" where
  "dict_get d k dflt = (case map_of d k of None \<Rightarrow> dflt | Some v \<Rightarrow> v)"

text \<open>\<open>sep.join(xs)\<close> on a list of strings.\<close>

fun join :: "string \<Rightarrow> string list \<Rightarrow> string" where
  "join sep [] = []"
| "join sep [x] = x"
| "join sep (x # y # ys) = x @ sep @ join sep (y # ys)"

text \<open>\<open>'{}'.format(k)\<close> for a Python integer: its decimal digits, with a sign when negative.\<close>

definition digit :: "nat \<Rightarrow> char" where
  "digit d = ''0123456789'' ! d"

fun str_nat :: "nat \<Rightarrow> string" where
  "str_nat k = (if k < 10 then [digit k] else str_nat (k div 10) @ [digit (k mod 10)])"

declare str_nat.simps [simp del]

definition str_int :: "int \<Rightarrow> string" where
  "str_int k = (if k < 0 then CHR ''-'' # str_nat (nat (- k)) else str_nat (nat k))"

section \<open>The expression tree seen by the compiler\<close>

text \<open>
  Modelled from the spec: the expression IR (\<open>ibis.expr\<close>) is not among the sources. A node
  has an operation kind and ordered arguments; the compiler only tells apart table
  references, join operations (with their kind, two sides and ordered predicate list),
  equalities (two sides) and every other operation, kept under the name of its kind.
\<close>

datatype join_kind = InnerJoin | LeftJoin | RightJoin | OuterJoin | CrossJoin

datatype expr =
    Table string
  | Column string
  | Literal string
  | Equals expr expr
  | Op string "expr list"
  | Join join_kind expr expr "expr list"

text \<open>\<open>isinstance(op, ops.Join)\<close> and \<open>isinstance(op, ops.Equals)\<close>.\<close>

fun is_join :: "expr \<Rightarrow> bool" where
  "is_join (Join k l r ps) = True"
| "is_join e = False"

fun is_equals :: "expr \<Rightarrow> bool" where
  "is_equals (Equals l r) = True"
| "is_equals e = False"

section \<open>Select statements: \<open>MapDSelect\<close>\<close>

text \<open>The optional limit \<open>{'n': ..., 'offset': ...}\<close>; the offset may be \<open>None\<close>.\<close>

datatype limit = Limit (limit_n: int) (limit_offset: "int option")

text \<open>The fields of a Select that \<open>format_group_by\<close> and \<open>format_limit\<close> read.\<close>

record select =
  group_by :: "expr list"
  having :: "expr list"
  limit :: "limit option"

text \<open>
  \<open>MapDSelect.format_group_by\<close>. \<open>expr.get_name()\<close> and \<open>self._translate(expr)\<close> belong to
  the absent IR and base compiler and are parameters. The early return on an empty
  group-by list comes before the having list is looked at.
\<close>

definition format_group_by ::
  "(expr \<Rightarrow> string) \<Rightarrow> (expr \<Rightarrow> string) \<Rightarrow> select \<Rightarrow> string option" where
  "format_group_by get_name translate s =
     (if group_by s = [] then None
      else
        let lines0 = [];
            lines1 = (if group_by s \<noteq> []
                      then lines0 @ [''GROUP BY '' @ join '', '' (map get_name (group_by s))]
                      else lines0);
            lines2 = (if having s \<noteq> []
                      then lines1 @ [''HAVING '' @ join '' AND '' (map translate (having s))]
                      else lines1)
        in Some (join newline lines2))"

text \<open>\<open>MapDSelect.format_limit\<close>.\<close>

definition format_limit :: "select \<Rightarrow> string option" where
  "format_limit s =
     (case limit s of
        None \<Rightarrow> None
      | Some l \<Rightarrow>
          Some (''LIMIT '' @ str_int (limit_n l) @
                (case limit_offset l of
                   None \<Rightarrow> []
                 | Some off \<Rightarrow> if off \<noteq> 0 then '', '' @ str_int off else [])))"

section \<open>Join predicates: \<open>MapDTableSetFormatter\<close>\<close>

definition non_equality_msg :: string where
  "non_equality_msg = ''Non-equality join predicates are not supported''"

definition different_names_msg :: string where
  "different_names_msg = ''Joining on different column names is not supported''"

text \<open>
  \<open>MapDTableSetFormatter._validate_join_predicates\<close>: the loop raises at the first
  predicate that is not an \<open>Equals\<close> operation or whose two sides have different names,
  and falls off the end (returning \<open>None\<close>) when there is none. \<open>get_name\<close> is the
  IR's method, a parameter.
\<close>

fun validate_join_predicates :: "(expr \<Rightarrow> string) \<Rightarrow> expr list \<Rightarrow> error + unit" where
  "validate_join_predicates get_name [] = Inr ()"
| "validate_join_predicates get_name (Equals left_on right_on # preds) =
     (if get_name left_on \<noteq> get_name right_on
      then Inl (TranslationError different_names_msg)
      else validate_join_predicates get_name preds)"
| "validate_join_predicates get_name (pred # preds) =
     Inl (TranslationError non_equality_msg)"

text \<open>
  A predicate that validation rejects, and the message it is rejected with.
\<close>

fun rejected :: "(expr \<Rightarrow> string) \<Rightarrow> expr \<Rightarrow> bool" where
  "rejected get_name (Equals l r) = (get_name l \<noteq> get_name r)"
| "rejected get_name p = True"

definition rejection :: "expr \<Rightarrow> error" where
  "rejection p =
     TranslationError (if is_equals p then different_names_msg else non_equality_msg)"

section \<open>The FROM clause: \<open>MapDTableSetFormatter.get_result\<close>\<close>

text \<open>The formatter's three running lists, empty when it is created.\<close>

record formatter =
  join_tables :: "string list"
  join_types :: "string list"
  join_predicates :: "expr list list"

definition new_formatter :: formatter where
  "new_formatter = \<lparr>join_tables = [], join_types = [], join_predicates = []\<rparr>"

text \<open>The class attribute \<open>_join_names\<close>.\<close>

definition join_names :: "(join_kind \<times> string) list" where
  "join_names = [(InnerJoin, ''JOIN''), (LeftJoin, ''LEFT JOIN'')]"

text \<open>
  Modelled from the spec: \<open>_walk_join_tree\<close> belongs to the base table-set formatter,
  which is missing from the sources. It is a depth-first traversal of the join node: at
  each join node the predicates are validated, the left child is flattened first (its
  own joins are spliced into the running lists; a non-join leaf becomes the anchor),
  then the right child is appended as one more join step with its join keyword (looked
  up in \<open>_join_names\<close>) and its own predicate list. \<open>format_table\<close> renders a leaf.
\<close>

fun walk_join_tree ::
  "(expr \<Rightarrow> string) \<Rightarrow> (expr \<Rightarrow> string) \<Rightarrow> expr \<Rightarrow> formatter \<Rightarrow> error + formatter" where
  "walk_join_tree get_name format_table (Join k l r preds) st =
     (case validate_join_predicates get_name preds of
        Inl e \<Rightarrow> Inl e
      | Inr u \<Rightarrow>
          (case map_of join_names k of
             None \<Rightarrow> Inl KeyError
           | Some jname \<Rightarrow>
               (case (if is_join l then walk_join_tree get_name format_table l st
                      else Inr (st\<lparr>join_tables := join_tables st @ [format_table l]\<rparr>)) of
                  Inl e \<Rightarrow> Inl e
                | Inr st1 \<Rightarrow>
                    Inr (st1\<lparr>join_tables := join_tables st1 @ [format_table r],
                             join_types := join_types st1 @ [jname],
                             join_predicates := join_predicates st1 @ [preds]\<rparr>))))"
| "walk_join_tree get_name format_table e st = Inr st"

text \<open>
  \<open>_format_predicate\<close>: the name of \<open>predicate.op().args[0]\<close>. Only operations whose
  first argument is an expression have one.
\<close>

fun format_predicate :: "(expr \<Rightarrow> string) \<Rightarrow> expr \<Rightarrow> error + string" where
  "format_predicate get_name (Equals l r) = Inr (get_name l)"
| "format_predicate get_name (Op k (a # as)) = Inr (get_name a)"
| "format_predicate get_name (Op k []) = Inl IndexError"
| "format_predicate get_name p = Inl AttributeError"

text \<open>\<open>map(f, xs)\<close> consumed by \<open>join\<close>, for an \<open>f\<close> that may raise.\<close>

fun map_raise :: "('a \<Rightarrow> error + 'b) \<Rightarrow> 'a list \<Rightarrow> error + 'b list" where
  "map_raise f [] = Inr []"
| "map_raise f (x # xs) =
     (case f x of
        Inl e \<Rightarrow> Inl e
      | Inr y \<Rightarrow> (case map_raise f xs of Inl e \<Rightarrow> Inl e | Inr ys \<Rightarrow> Inr (y # ys)))"

text \<open>
  The \<open>for\<close> loop of \<open>get_result\<close> over the zipped join types, tables and predicate
  lists, writing to the buffer. \<open>util.indent\<close> is not among the sources and is the
  parameter \<open>indent\<close>; \<open>ind\<close> is \<open>self.indent\<close>.
\<close>

fun write_joins ::
  "(expr \<Rightarrow> string) \<Rightarrow> (string \<Rightarrow> nat \<Rightarrow> string) \<Rightarrow> nat \<Rightarrow>
   (string \<times> string \<times> expr list) list \<Rightarrow> string \<Rightarrow> error + string" where
  "write_joins get_name indent ind [] buf = Inr buf"
| "write_joins get_name indent ind ((jtype, table, preds) # steps) buf =
     (let buf1 = buf @ newline @ indent (jtype @ '' '' @ table) ind
      in if length preds \<noteq> 0 then
           (case map_raise (format_predicate get_name) preds of
              Inl e \<Rightarrow> Inl e
            | Inr fmt_preds \<Rightarrow>
                write_joins get_name indent ind steps
                  (buf1 @ newline @ indent (''USING '' @ join '', '' fmt_preds) (ind * 2)))
         else write_joins get_name indent ind steps buf1)"

text \<open>
  \<open>get_result\<close>: unravel the join tree (or take the single table), then write the first
  table and the join steps. \<open>self.join_tables[0]\<close> raises on an empty list.
\<close>

definition get_result ::
  "(expr \<Rightarrow> string) \<Rightarrow> (expr \<Rightarrow> string) \<Rightarrow> (string \<Rightarrow> nat \<Rightarrow> string) \<Rightarrow> nat \<Rightarrow> expr \<Rightarrow>
   error + string" where
  "get_result get_name format_table indent ind e =
     (case (if is_join e then walk_join_tree get_name format_table e new_formatter
            else Inr (new_formatter\<lparr>join_tables := [format_table e]\<rparr>)) of
        Inl err \<Rightarrow> Inl err
      | Inr st \<Rightarrow>
          (case join_tables st of
             [] \<Rightarrow> Inl IndexError
           | first # rest \<Rightarrow>
               write_joins get_name indent ind
                 (zip (join_types st) (zip rest (join_predicates st))) first))"

text \<open>
  Modelled from the spec: \<open>ibis.util.indent\<close> is missing from the sources. Indenting
  a text by a number of spaces puts that many spaces in front of each of its lines.
\<close>

fun indent_from :: "nat \<Rightarrow> bool \<Rightarrow> string \<Rightarrow> string" where
  "indent_from spaces at_start [] = []"
| "indent_from spaces at_start (c # cs) =
     (if at_start then replicate spaces CHR '' '' else []) @
     c # indent_from spaces (c = CHR 0x0A) cs"

definition util_indent :: "string \<Rightarrow> nat \<Rightarrow> string" where
  "util_indent text spaces = indent_from spaces True text"

text \<open>
  The rendering in the spec's words: the join tree flattened to an anchor table and an
  ordered list of join steps (join type, table text, predicate list), left child first.
\<close>

fun flatten :: "(expr \<Rightarrow> string) \<Rightarrow> expr \<Rightarrow> string \<times> (join_kind \<times> string \<times> expr list) list" where
  "flatten format_table (Join k l r preds) =
     (fst (flatten format_table l),
      snd (flatten format_table l) @ [(k, format_table r, preds)])"
| "flatten format_table e = (format_table e, [])"

text \<open>A flattened step as the loop of \<open>get_result\<close> meets it, the join type as its keyword.\<close>

definition step_row :: "join_kind \<times> string \<times> expr list \<Rightarrow> string \<times> string \<times> expr list" where
  "step_row step = (case step of (k, table, preds) \<Rightarrow> (dict_get join_names k [], table, preds))"

text \<open>The column name a USING-style predicate shares between its two sides.\<close>

fun shared_name :: "(expr \<Rightarrow> string) \<Rightarrow> expr \<Rightarrow> string" where
  "shared_name get_name (Equals l r) = get_name l"
| "shared_name get_name p = []"

text \<open>
  One join step as the code writes it: the keyword and the table on a line indented
  one level, then, when the step has predicates, \<open>USING\<close> and the comma-separated
  shared column names on a line indented two levels.
\<close>

definition step_text ::
  "(expr \<Rightarrow> string) \<Rightarrow> (string \<Rightarrow> nat \<Rightarrow> string) \<Rightarrow> nat \<Rightarrow> join_kind \<times> string \<times> expr list \<Rightarrow>
   string" where
  "step_text get_name indent ind step =
     (case step of (k, table, preds) \<Rightarrow>
        newline @ indent (dict_get join_names k [] @ '' '' @ table) ind @
        (if preds = [] then []
         else newline @
              indent (''USING '' @ join '', '' (map (shared_name get_name) preds)) (ind * 2)))"

text \<open>The same step with the column list in parentheses, \<open>USING (cols)\<close>.\<close>

definition step_text_parenthesised ::
  "(expr \<Rightarrow> string) \<Rightarrow> (string \<Rightarrow> nat \<Rightarrow> string) \<Rightarrow> nat \<Rightarrow> join_kind \<times> string \<times> expr list \<Rightarrow>
   string" where
  "step_text_parenthesised get_name indent ind step =
     (case step of (k, table, preds) \<Rightarrow>
        newline @ indent (dict_get join_names k [] @ '' '' @ table) ind @
        (if preds = [] then []
         else newline @
              indent (''USING ('' @ join '', '' (map (shared_name get_name) preds) @ '')'')
                (ind * 2)))"

section \<open>Schema discovery: \<open>ibis.mapd.client\<close>\<close>

text \<open>
  The ibis types that the tables map to (\<open>dt.int64\<close>, ...), the two type constructors
  \<open>dt.Struct(names, types)\<close> and \<open>dt.Array(t)\<close>, and \<open>RawTag\<close> for a backend tag (a
  Python \<open>str\<close>) that went through both \<open>dict.get(k, k)\<close> lookups unchanged.
\<close>

datatype dtype =
    dt_int64 | dt_double | dt_boolean | dt_string | dt_date | dt_timestamp | dt_time
  | dt_binary
  | Struct "string list" "dtype list"
  | Array dtype
  | RawTag string

text \<open>A backend field descriptor: \<open>name\<close>, \<open>field_type\<close>, \<open>mode\<close>, \<open>fields\<close>.\<close>

datatype field =
  Field (field_name: string) (field_type: string) (field_mode: string)
        (field_fields: "field list")

definition NATIVE_PARTITION_COL :: string where
  "NATIVE_PARTITION_COL = ''_PARTITIONTIME''"

definition DTYPE_TO_IBIS_TYPE :: "(string \<times> dtype) list" where
  "DTYPE_TO_IBIS_TYPE =
     [(''INT64'', dt_int64), (''FLOAT64'', dt_double), (''BOOL'', dt_boolean),
      (''STRING'', dt_string), (''DATE'', dt_date), (''DATETIME'', dt_timestamp),
      (''TIME'', dt_time), (''TIMESTAMP'', dt_timestamp), (''BYTES'', dt_binary)]"

definition LEGACY_TO_STANDARD :: "(string \<times> string) list" where
  "LEGACY_TO_STANDARD =
     [(''INTEGER'', ''INT64''), (''FLOAT'', ''FLOAT64''), (''BOOLEAN'', ''BOOL'')]"

text \<open>
  The type tags the tables know: the keys of both tables, and \<open>RECORD\<close>.
\<close>

definition known_tags :: "string list" where
  "known_tags = map fst LEGACY_TO_STANDARD @ map fst DTYPE_TO_IBIS_TYPE @ [''RECORD'']"

text \<open>
  \<open>_discover_type\<close>. \<open>assert fields\<close> fails on an empty field list. The second lookup
  defaults to its own key, so a tag found in neither table comes back as it went in.
\<close>

fun discover_type :: "field \<Rightarrow> error + dtype"
  and discover_types :: "field list \<Rightarrow> error + dtype list" where
  "discover_type (Field nm typ md fs) =
     (case
        (if typ = ''RECORD'' then
           (if fs = [] then Inl AssertionError
            else case discover_types fs of
                   Inl e \<Rightarrow> Inl e
                 | Inr ibis_types \<Rightarrow> Inr (Struct (map field_name fs) ibis_types))
         else
           (let ibis_type = dict_get LEGACY_TO_STANDARD typ typ
            in Inr (dict_get DTYPE_TO_IBIS_TYPE ibis_type (RawTag ibis_type))))
      of
        Inl e \<Rightarrow> Inl e
      | Inr ibis_type \<Rightarrow> Inr (if md = ''REPEATED'' then Array ibis_type else ibis_type))"
| "discover_types [] = Inr []"
| "discover_types (el # els) =
     (case discover_type el of
        Inl e \<Rightarrow> Inl e
      | Inr t \<Rightarrow> (case discover_types els of Inl e \<Rightarrow> Inl e | Inr ts \<Rightarrow> Inr (t # ts)))"

text \<open>
  A backend table as schema inference reads it: its declared fields, and what the call
  \<open>table.list_partitions()\<close> does (raises, or returns the partitions).
\<close>

record table =
  table_schema :: "field list"
  list_partitions :: "error + string list"

text \<open>
  The list comprehension \<open>[(el.name, f(el)) for el in table.schema]\<close>, for an \<open>f\<close> that
  may raise.
\<close>

fun column_pairs ::
  "(field \<Rightarrow> error + dtype) \<Rightarrow> field list \<Rightarrow> error + (string \<times> dtype) list" where
  "column_pairs f [] = Inr []"
| "column_pairs f (el # els) =
     (case f el of
        Inl e \<Rightarrow> Inl e
      | Inr t \<Rightarrow>
          (case column_pairs f els of
             Inl e \<Rightarrow> Inl e
           | Inr ps \<Rightarrow> Inr ((field_name el, t) # ps)))"

text \<open>
  The \<open>try\<close> block shared by both schema functions: the partition column is appended
  when the call returns a non-empty list; \<open>except Exception: pass\<close> leaves the pairs as
  they are.
\<close>

definition append_partition_col ::
  "table \<Rightarrow> (string \<times> dtype) list \<Rightarrow> (string \<times> dtype) list" where
  "append_partition_col t pairs =
     (case list_partitions t of
        Inl e \<Rightarrow> pairs
      | Inr partitions \<Rightarrow>
          if partitions \<noteq> [] then pairs @ [(NATIVE_PARTITION_COL, dt_timestamp)]
          else pairs)"

text \<open>
  \<open>pymapd_table_to_ibis_schema\<close>. \<open>ibis.schema\<close> is not among the sources and is the
  parameter \<open>schema\<close>.
\<close>

definition pymapd_table_to_ibis_schema ::
  "((string \<times> dtype) list \<Rightarrow> error + 's) \<Rightarrow> table \<Rightarrow> error + 's" where
  "pymapd_table_to_ibis_schema schema t =
     (case column_pairs discover_type (table_schema t) of
        Inl e \<Rightarrow> Inl e
      | Inr pairs \<Rightarrow> schema (append_partition_col t pairs))"

text \<open>
  \<open>pymapd_schema\<close>, the same with \<open>dt.dtype\<close> (not among the sources, the parameter
  \<open>dtype\<close>) in place of \<open>_discover_type\<close>.
\<close>

definition pymapd_schema ::
  "(field \<Rightarrow> error + dtype) \<Rightarrow> ((string \<times> dtype) list \<Rightarrow> error + 's) \<Rightarrow> table \<Rightarrow> error + 's"
  where
  "pymapd_schema dtype schema t =
     (case column_pairs dtype (table_schema t) of
        Inl e \<Rightarrow> Inl e
      | Inr pairs \<Rightarrow> schema (append_partition_col t pairs))"

text \<open>
  Modelled from the spec: \<open>ibis.schema\<close> is missing from the sources. It builds a
  Schema, an ordered name-unique mapping from column name to type, and fails with
  \<open>DuplicateColumnError\<close> if a name repeats.
\<close>

definition ibis_schema :: "(string \<times> dtype) list \<Rightarrow> error + (string \<times> dtype) list" where
  "ibis_schema pairs =
     (if distinct (map fst pairs) then Inr pairs else Inl DuplicateColumnError)"

section \<open>Parameter binding: \<open>pymapd_param\<close>\<close>























section \<open>String expressions\<close>

text \<open>
  Modelled from the spec: the expression API (\<open>ibis.expr.api\<close>, \<open>ibis.expr.operations\<close>)
  is missing from the sources; only its test is at hand. A node has an operation kind,
  an ordered list of argument expressions or literal operands, a result category
  (scalar or array) and a result type.
\<close>

datatype kind =
    TableColumn | StringLiteral | Lowercase | Uppercase | Substring | StrRight
  | StringLength

datatype category = ScalarValue | ArrayValue

datatype node = Node kind "operand list" category dtype
  and operand = ArgNode node | ArgInt int | ArgStr string

fun node_category :: "node \<Rightarrow> category" where
  "node_category (Node k as c t) = c"

text \<open>
  Modelled from the spec: \<open>.equals\<close> is structural, a node's identity being its kind,
  its arguments and its type.
\<close>

fun equals :: "node \<Rightarrow> node \<Rightarrow> bool"
  and equals_operand :: "operand \<Rightarrow> operand \<Rightarrow> bool"
  and equals_operands :: "operand list \<Rightarrow> operand list \<Rightarrow> bool" where
  "equals (Node k as c t) (Node k' as' c' t') =
     (k = k' \<and> equals_operands as as' \<and> t = t')"
| "equals_operand (ArgNode a) (ArgNode b) = equals a b"
| "equals_operand (ArgInt i) (ArgInt j) = (i = j)"
| "equals_operand (ArgStr s) (ArgStr s') = (s = s')"
| "equals_operand a b = False"
| "equals_operands [] [] = True"
| "equals_operands (a # as) (b # bs) = (equals_operand a b \<and> equals_operands as bs)"
| "equals_operands as bs = False"

text \<open>
  Modelled from the spec: \<open>substr(start, length)\<close> gives a node tagged Substring, with
  \<open>start\<close> and \<open>length\<close> recorded as given, array-valued on a column and scalar-valued
  on a scalar; \<open>right(n)\<close> gives a node tagged StrRight with \<open>nchars = n\<close>; \<open>left(s, n)\<close>
  is expressed as \<open>substr(s, 0, n)\<close>.
\<close>

definition substr :: "node \<Rightarrow> int \<Rightarrow> int \<Rightarrow> node" where
  "substr s start len =
     Node Substring [ArgNode s, ArgInt start, ArgInt len] (node_category s) dt_string"

definition right :: "node \<Rightarrow> int \<Rightarrow> node" where
  "right s nchars = Node StrRight [ArgNode s, ArgInt nchars] (node_category s) dt_string"

definition left :: "node \<Rightarrow> int \<Rightarrow> node" where
  "left s nchars = substr s 0 nchars"

section \<open>Examples\<close>

text \<open>A naming and a rendering of expressions, used at concrete inputs only.\<close>

fun ex_name :: "expr \<Rightarrow> string" where
  "ex_name (Table t) = t"
| "ex_name (Column c) = c"
| "ex_name (Literal v) = v"
| "ex_name (Equals l r) = ''eq''"
| "ex_name (Op k as) = k"
| "ex_name (Join k l r ps) = ''join''"

fun ex_translate :: "expr \<Rightarrow> string" where
  "ex_translate (Table t) = t"
| "ex_translate (Column c) = c"
| "ex_translate (Literal v) = v"
| "ex_translate (Equals l r) = ex_translate l @ '' = '' @ ex_translate r"
| "ex_translate (Op k as) = k @ ''('' @ join '', '' (map ex_translate as) @ '')''"
| "ex_translate (Join k l r ps) = ''join''"

definition having_only :: select where
  "having_only =
     \<lparr>group_by = [], having = [Op ''Greater'' [Op ''Sum'' [Column ''a''], Literal ''0'']],
      limit = None\<rparr>"

definition grouped :: select where
  "grouped =
     \<lparr>group_by = [Column ''k'', Column ''j''],
      having = [Op ''Greater'' [Op ''Sum'' [Column ''a''], Literal ''0''],
                Op ''Less'' [Column ''k'', Literal ''9'']],
      limit = Some (Limit 5 (Some 10))\<rparr>"

text \<open>Join trees: one inner join on \<open>a\<close>; a left join, without predicates, of an inner
  join on \<open>a\<close> and \<open>b\<close>.\<close>

definition single_join :: expr where
  "single_join = Join InnerJoin (Table ''t0'') (Table ''t1'') [Equals (Column ''a'') (Column ''a'')]"

definition two_joins :: expr where
  "two_joins =
     Join LeftJoin
       (Join InnerJoin (Table ''t0'') (Table ''t1'')
          [Equals (Column ''a'') (Column ''a''), Equals (Column ''b'') (Column ''b'')])
       (Table ''t2'') []"

text \<open>Predicates on columns.\<close>

definition a_eq_a :: expr where
  "a_eq_a = Equals (Column ''a'') (Column ''a'')"

definition a_eq_b :: expr where
  "a_eq_b = Equals (Column ''a'') (Column ''b'')"

definition a_lt_b :: expr where
  "a_lt_b = Op ''Less'' [Column ''a'', Column ''b'']"

text \<open>Tables with two declared columns, differing in what listing the partitions does.\<close>

definition declared :: "field list" where
  "declared = [Field ''a'' ''INTEGER'' ''NULLABLE'' [], Field ''b'' ''STRING'' ''REPEATED'' []]"

definition partitioned :: table where
  "partitioned = \<lparr>table_schema = declared, list_partitions = Inr [''20180101'']\<rparr>"

definition unpartitioned :: table where
  "unpartitioned = \<lparr>table_schema = declared, list_partitions = Inr []\<rparr>"

definition unlistable :: table where
  "unlistable = \<lparr>table_schema = declared, list_partitions = Inl (OtherException ''NotFound'')\<rparr>"







text \<open>The string column \<open>g\<close> of the test's table.\<close>

definition column_g :: node where
  "column_g = Node TableColumn [ArgStr ''alltypes'', ArgStr ''g''] ArrayValue dt_string"

section \<open>Properties of the Select clauses\<close>

text \<open>
  C1 (as the code has it). A Select whose group-by list is empty renders no grouping
  text at all: \<open>format_group_by\<close> returns \<open>None\<close>, so neither GROUP BY nor HAVING is
  emitted, whatever the having list holds. HAVING (the having predicates, translated
  and joined with ' AND ') is emitted only on the line after a non-empty GROUP BY.
\<close>

theorem format_group_by_empty_group:
  "(group_by s = [] \<longrightarrow> format_group_by get_name translate s = None) \<and>
   (group_by s \<noteq> [] \<and> having s \<noteq> [] \<longrightarrow>
      format_group_by get_name translate s =
        Some (''GROUP BY '' @ join '', '' (map get_name (group_by s)) @ newline @
              ''HAVING '' @ join '' AND '' (map translate (having s))))"
  by (simp add: format_group_by_def)

theorem format_group_by_empty_group_witness:
  "group_by having_only = [] \<and> format_group_by ex_name ex_translate having_only = None \<and>
   group_by grouped \<noteq> [] \<and> having grouped \<noteq> [] \<and>
   format_group_by ex_name ex_translate grouped =
     Some (''GROUP BY k, j'' @ newline @ ''HAVING Greater(Sum(a), 0) AND Less(k, 9)'')"
  using format_group_by_empty_group [of having_only ex_name ex_translate]
        format_group_by_empty_group [of grouped ex_name ex_translate]
  by (simp add: having_only_def grouped_def)

text \<open>
  C1 (as stated) fails: with an empty group-by list and one having predicate, no
  HAVING clause is produced.
\<close>

theorem having_without_group_by_counterexample:
  "having having_only \<noteq> [] \<and> group_by having_only = [] \<and>
   format_group_by ex_name ex_translate having_only = None \<and>
   format_group_by ex_name ex_translate having_only \<noteq>
     Some (''HAVING '' @ join '' AND '' (map ex_translate (having having_only)))"
  by (simp add: format_group_by_def having_only_def)

text \<open>
  C5. Limit rendering: no limit gives no LIMIT clause; a limit whose offset is absent
  or zero gives exactly \<open>LIMIT n\<close>; a limit with a non-zero offset gives
  \<open>LIMIT n, offset\<close>.
\<close>

theorem format_limit_cases:
  "(limit s = None \<longrightarrow> format_limit s = None) \<and>
   (limit s = Some (Limit k None) \<longrightarrow> format_limit s = Some (''LIMIT '' @ str_int k)) \<and>
   (limit s = Some (Limit k (Some 0)) \<longrightarrow> format_limit s = Some (''LIMIT '' @ str_int k)) \<and>
   (limit s = Some (Limit k (Some off)) \<and> off \<noteq> 0 \<longrightarrow>
      format_limit s = Some (''LIMIT '' @ str_int k @ '', '' @ str_int off))"
  by (simp add: format_limit_def)

theorem format_limit_cases_witness:
  "limit having_only = None \<and> format_limit having_only = None \<and>
   format_limit (having_only\<lparr>limit := Some (Limit 5 None)\<rparr>) = Some ''LIMIT 5'' \<and>
   format_limit (having_only\<lparr>limit := Some (Limit 5 (Some 0))\<rparr>) = Some ''LIMIT 5'' \<and>
   limit grouped = Some (Limit 5 (Some 10)) \<and> (10::int) \<noteq> 0 \<and>
   format_limit grouped = Some ''LIMIT 5, 10''"
  using format_limit_cases [of having_only 0 0]
        format_limit_cases [of "having_only\<lparr>limit := Some (Limit 5 None)\<rparr>" 5 0]
        format_limit_cases [of "having_only\<lparr>limit := Some (Limit 5 (Some 0))\<rparr>" 5 0]
        format_limit_cases [of grouped 5 10]
  by (simp add: having_only_def grouped_def str_int_def str_nat.simps digit_def)

section \<open>Properties of join-predicate validation\<close>

lemma validate_first_rejected:
  "validate_join_predicates gn ps =
     (case find (rejected gn) ps of None \<Rightarrow> Inr () | Some p \<Rightarrow> Inl (rejection p))"
proof (induction ps)
  case Nil
  show ?case by simp
next
  case (Cons p ps)
  then show ?case by (cases p) (simp_all add: rejection_def)
qed

lemma validate_skips_accepted:
  "\<forall>q\<in>set qs. \<not> rejected gn q \<Longrightarrow>
   validate_join_predicates gn (qs @ ps) = validate_join_predicates gn ps"
proof (induction qs)
  case Nil
  show ?case by simp
next
  case (Cons q qs)
  then show ?case by (cases q) simp_all
qed

lemma validate_rejected_head:
  "rejected gn p \<Longrightarrow> validate_join_predicates gn (p # rs) = Inl (rejection p)"
  by (cases p) (simp_all add: rejection_def)

lemma validate_accepts:
  "validate_join_predicates gn ps = Inr u \<Longrightarrow> \<forall>p\<in>set ps. \<not> rejected gn p"
proof (induction ps)
  case Nil
  show ?case by simp
next
  case (Cons p ps)
  then show ?case by (cases p) (simp_all split: if_splits)
qed

text \<open>
  C3 (as the code has it). Validation passes on a list of equalities whose two sides
  have the same name. It fails with \<open>TranslationError\<close> as soon as some predicate is not
  an equality or is an equality whose sides have different names, and the variant
  reported is that of the first such predicate in list order: the non-equality message
  when that predicate is not an \<open>Equals\<close> operation, the different-column-names message
  when it is an equality whose sides' names differ. The join type plays no part.
\<close>

theorem validate_join_predicates_first_offence:
  "((\<forall>p\<in>set ps. \<exists>l r. p = Equals l r \<and> gn l = gn r) \<longrightarrow>
      validate_join_predicates gn ps = Inr ()) \<and>
   ((\<exists>p\<in>set ps. \<not> is_equals p \<or> (\<exists>l r. p = Equals l r \<and> gn l \<noteq> gn r)) \<longrightarrow>
      validate_join_predicates gn ps = Inl (TranslationError non_equality_msg) \<or>
      validate_join_predicates gn ps = Inl (TranslationError different_names_msg)) \<and>
   ((\<forall>q\<in>set qs. \<not> rejected gn q) \<and> \<not> is_equals p \<longrightarrow>
      validate_join_predicates gn (qs @ p # rs) = Inl (TranslationError non_equality_msg)) \<and>
   ((\<forall>q\<in>set qs. \<not> rejected gn q) \<and> p = Equals l r \<and> gn l \<noteq> gn r \<longrightarrow>
      validate_join_predicates gn (qs @ p # rs) = Inl (TranslationError different_names_msg))"
proof (intro conjI impI)
  assume "\<forall>p\<in>set ps. \<exists>l r. p = Equals l r \<and> gn l = gn r"
  then have "find (rejected gn) ps = None"
    by (auto simp: find_None_iff)
  then show "validate_join_predicates gn ps = Inr ()"
    by (simp add: validate_first_rejected)
next
  assume "\<exists>p\<in>set ps. \<not> is_equals p \<or> (\<exists>l r. p = Equals l r \<and> gn l \<noteq> gn r)"
  then obtain p where "p \<in> set ps" "rejected gn p"
    by (metis is_equals.elims(3) rejected.simps)
  then obtain q where "find (rejected gn) ps = Some q"
    by (cases "find (rejected gn) ps") (auto simp: find_None_iff)
  then show "validate_join_predicates gn ps = Inl (TranslationError non_equality_msg) \<or>
      validate_join_predicates gn ps = Inl (TranslationError different_names_msg)"
    by (simp add: validate_first_rejected rejection_def)
next
  assume a: "(\<forall>q\<in>set qs. \<not> rejected gn q) \<and> \<not> is_equals p"
  then have "rejected gn p" by (cases p) simp_all
  with a show "validate_join_predicates gn (qs @ p # rs) = Inl (TranslationError non_equality_msg)"
    by (simp add: validate_skips_accepted validate_rejected_head rejection_def)
next
  assume a: "(\<forall>q\<in>set qs. \<not> rejected gn q) \<and> p = Equals l r \<and> gn l \<noteq> gn r"
  then show "validate_join_predicates gn (qs @ p # rs) = Inl (TranslationError different_names_msg)"
    by (simp add: validate_skips_accepted)
qed

theorem validate_join_predicates_first_offence_witness:
  "validate_join_predicates ex_name [a_eq_a, a_eq_a] = Inr () \<and>
   validate_join_predicates ex_name [a_eq_a, a_lt_b, a_eq_b] =
     Inl (TranslationError non_equality_msg) \<and>
   validate_join_predicates ex_name [a_eq_a, a_eq_b, a_lt_b] =
     Inl (TranslationError different_names_msg)"
  using validate_join_predicates_first_offence
          [of "[a_eq_a, a_eq_a]" ex_name "[a_eq_a]" a_lt_b "[a_eq_b]" "Column ''a''" "Column ''b''"]
        validate_join_predicates_first_offence
          [of "[a_eq_a, a_eq_b, a_lt_b]" ex_name "[a_eq_a]" a_eq_b "[a_lt_b]"
              "Column ''a''" "Column ''b''"]
  by (simp add: a_eq_a_def a_eq_b_def a_lt_b_def)

text \<open>
  C3 (as stated) fails: a list holds an equality whose sides have different names, yet
  validation does not fail with the different-column-names variant, because a
  non-equality predicate comes first.
\<close>

theorem mismatch_after_non_equality_counterexample:
  "a_eq_b = Equals (Column ''a'') (Column ''b'') \<and>
   ex_name (Column ''a'') \<noteq> ex_name (Column ''b'') \<and>
   validate_join_predicates ex_name [a_lt_b, a_eq_b] = Inl (TranslationError non_equality_msg) \<and>
   validate_join_predicates ex_name [a_lt_b, a_eq_b] \<noteq>
     Inl (TranslationError different_names_msg)"
  by (simp add: a_eq_b_def a_lt_b_def non_equality_msg_def different_names_msg_def)

section \<open>Properties of the FROM clause\<close>

lemma map_raise_accepted:
  "\<forall>p\<in>set ps. \<not> rejected gn p \<Longrightarrow>
   map_raise (format_predicate gn) ps = Inr (map (shared_name gn) ps)"
proof (induction ps)
  case Nil
  show ?case by simp
next
  case (Cons p ps)
  then show ?case by (cases p) simp_all
qed

lemma write_joins_steps:
  "\<forall>step\<in>set steps. \<forall>p\<in>set (snd (snd step)). \<not> rejected gn p \<Longrightarrow>
   write_joins gn indent ind (map step_row steps) buf =
     Inr (buf @ concat (map (step_text gn indent ind) steps))"
proof (induction steps arbitrary: buf)
  case Nil
  show ?case by simp
next
  case (Cons step steps)
  obtain k table preds where step: "step = (k, table, preds)"
    by (cases step) auto
  from Cons.prems have valid: "\<forall>p\<in>set preds. \<not> rejected gn p"
    by (simp add: step)
  from Cons.prems have rest: "\<forall>step\<in>set steps. \<forall>p\<in>set (snd (snd step)). \<not> rejected gn p"
    by simp
  have row: "step_row step = (dict_get join_names k [], table, preds)"
    by (simp add: step step_row_def)
  have rendered: "step_text gn indent ind step =
      newline @ indent (dict_get join_names k [] @ '' '' @ table) ind @
      (if preds = [] then []
       else newline @
            indent (''USING '' @ join '', '' (map (shared_name gn) preds)) (ind * 2))"
    by (simp add: step step_text_def)
  show ?case
    by (simp add: row rendered map_raise_accepted [OF valid] Cons.IH [OF rest] Let_def)
qed

lemma walk_join_tree_flatten:
  "is_join e \<Longrightarrow> walk_join_tree gn ft e st = Inr st' \<Longrightarrow>
   join_tables st' = join_tables st @ fst (flatten ft e) # map (fst \<circ> snd) (snd (flatten ft e)) \<and>
   join_types st' = join_types st @ map (fst \<circ> step_row) (snd (flatten ft e)) \<and>
   join_predicates st' = join_predicates st @ map (snd \<circ> snd) (snd (flatten ft e)) \<and>
   (\<forall>step\<in>set (snd (flatten ft e)). \<forall>p\<in>set (snd (snd step)). \<not> rejected gn p)"
proof (induction e arbitrary: st st')
  case (Join k l r preds)
  from Join.prems(2) obtain u where v: "validate_join_predicates gn preds = Inr u"
    by (auto split: sum.splits)
  from Join.prems(2) v obtain jname where j: "map_of join_names k = Some jname"
    by (auto split: option.splits)
  from Join.prems(2) v j obtain st1 where
    left: "(if is_join l then walk_join_tree gn ft l st
            else Inr (st\<lparr>join_tables := join_tables st @ [ft l]\<rparr>)) = Inr st1"
    and st': "st' = st1\<lparr>join_tables := join_tables st1 @ [ft r],
                        join_types := join_types st1 @ [jname],
                        join_predicates := join_predicates st1 @ [preds]\<rparr>"
    by (auto split: sum.splits)
  have kw: "dict_get join_names k [] = jname"
    by (simp add: dict_get_def j)
  have inner:
    "join_tables st1 = join_tables st @ fst (flatten ft l) # map (fst \<circ> snd) (snd (flatten ft l)) \<and>
     join_types st1 = join_types st @ map (fst \<circ> step_row) (snd (flatten ft l)) \<and>
     join_predicates st1 = join_predicates st @ map (snd \<circ> snd) (snd (flatten ft l)) \<and>
     (\<forall>step\<in>set (snd (flatten ft l)). \<forall>p\<in>set (snd (snd step)). \<not> rejected gn p)"
  proof (cases "is_join l")
    case True
    with left have "walk_join_tree gn ft l st = Inr st1" by simp
    from Join.IH(1) [OF True this] show ?thesis .
  next
    case False
    with left have "st1 = st\<lparr>join_tables := join_tables st @ [ft l]\<rparr>" by simp
    moreover from False have "flatten ft l = (ft l, [])" by (cases l) simp_all
    ultimately show ?thesis by simp
  qed
  from inner validate_accepts [OF v] show ?case
    by (simp add: st' step_row_def kw)
qed simp_all

lemma zip_rows:
  "zip (map (fst \<circ> step_row) steps) (zip (map (fst \<circ> snd) steps) (map (snd \<circ> snd) steps)) =
   map step_row steps"
  by (induction steps) (auto simp: step_row_def)

text \<open>
  C2 (as the code has it). For every join tree that the table-set formatter accepts,
  the FROM text is the anchor table first (no join keyword), then for each subsequent
  join step, in order, a line with the join keyword and the table indented one level,
  followed, whenever that step has predicates, by a line indented two levels that
  holds \<open>USING\<close>, a space and the shared column names in predicate order separated by
  ', ', with no parentheses around them.
\<close>

theorem get_result_rendering:
  assumes "get_result gn ft indent ind e = Inr text"
  shows "text = fst (flatten ft e) @ concat (map (step_text gn indent ind) (snd (flatten ft e)))"
proof (cases "is_join e")
  case True
  with assms obtain st where w: "walk_join_tree gn ft e new_formatter = Inr st"
    by (auto simp: get_result_def split: sum.splits)
  note f = walk_join_tree_flatten [OF True w]
  from f have tables: "join_tables st = fst (flatten ft e) # map (fst \<circ> snd) (snd (flatten ft e))"
    by (simp add: new_formatter_def)
  from f have types: "join_types st = map (fst \<circ> step_row) (snd (flatten ft e))"
    by (simp add: new_formatter_def)
  from f have preds: "join_predicates st = map (snd \<circ> snd) (snd (flatten ft e))"
    by (simp add: new_formatter_def)
  from f have valid: "\<forall>step\<in>set (snd (flatten ft e)). \<forall>p\<in>set (snd (snd step)). \<not> rejected gn p"
    by simp
  from assms True w have
    "write_joins gn indent ind (map step_row (snd (flatten ft e))) (fst (flatten ft e)) = Inr text"
    by (simp add: get_result_def tables types preds zip_rows)
  with write_joins_steps [OF valid] show ?thesis by simp
next
  case False
  then have "flatten ft e = (ft e, [])" by (cases e) simp_all
  with assms False show ?thesis
    by (simp add: get_result_def new_formatter_def)
qed

lemma two_joins_text:
  "get_result ex_name ex_name util_indent 2 two_joins =
     Inr (''t0'' @ newline @ ''  JOIN t1'' @ newline @ ''    USING a, b'' @ newline @
          ''  LEFT JOIN t2'')"
  by (simp add: get_result_def two_joins_def new_formatter_def join_names_def
      util_indent_def newline_def eval_nat_numeral)

theorem get_result_rendering_witness:
  "get_result ex_name ex_name util_indent 2 two_joins =
     Inr (''t0'' @ newline @ ''  JOIN t1'' @ newline @ ''    USING a, b'' @ newline @
          ''  LEFT JOIN t2'') \<and>
   ''t0'' @ newline @ ''  JOIN t1'' @ newline @ ''    USING a, b'' @ newline @ ''  LEFT JOIN t2'' =
     fst (flatten ex_name two_joins) @
     concat (map (step_text ex_name util_indent 2) (snd (flatten ex_name two_joins)))"
  using two_joins_text get_result_rendering [OF two_joins_text]
  by simp

text \<open>
  C2 (as stated) fails: the column list after \<open>USING\<close> is not parenthesised. One inner
  join on column \<open>a\<close> renders \<open>USING a\<close>, not \<open>USING (a)\<close>.
\<close>

theorem using_parentheses_counterexample:
  "get_result ex_name ex_name util_indent 2 single_join =
     Inr (''t0'' @ newline @ ''  JOIN t1'' @ newline @ ''    USING a'') \<and>
   fst (flatten ex_name single_join) @
   concat (map (step_text_parenthesised ex_name util_indent 2) (snd (flatten ex_name single_join))) =
     ''t0'' @ newline @ ''  JOIN t1'' @ newline @ ''    USING (a)'' \<and>
   get_result ex_name ex_name util_indent 2 single_join \<noteq>
     Inr (''t0'' @ newline @ ''  JOIN t1'' @ newline @ ''    USING (a)'')"
  by (simp add: get_result_def single_join_def new_formatter_def join_names_def
      util_indent_def newline_def step_text_parenthesised_def dict_get_def eval_nat_numeral)

section \<open>Properties of schema discovery\<close>

text \<open>
  C4 (as the code has it). For a field descriptor whose type tag is none of the known
  tags and whose mode is not REPEATED, type inference does not fail: the second
  lookup defaults to its key and the tag itself comes back as the field's type.
\<close>

theorem discover_type_unknown_tag:
  "typ \<notin> set known_tags \<Longrightarrow> md \<noteq> ''REPEATED'' \<Longrightarrow>
   discover_type (Field nm typ md fs) = Inr (RawTag typ)"
  by (simp add: known_tags_def dict_get_def LEGACY_TO_STANDARD_def DTYPE_TO_IBIS_TYPE_def)

theorem discover_type_unknown_tag_witness:
  "''GEOGRAPHY'' \<notin> set known_tags \<and> ''NULLABLE'' \<noteq> ''REPEATED'' \<and>
   discover_type (Field ''shape'' ''GEOGRAPHY'' ''NULLABLE'' []) = Inr (RawTag ''GEOGRAPHY'')"
proof -
  have unknown: "''GEOGRAPHY'' \<notin> set known_tags"
    by (simp add: known_tags_def LEGACY_TO_STANDARD_def DTYPE_TO_IBIS_TYPE_def)
  have mode: "''NULLABLE'' \<noteq> ''REPEATED''"
    by simp
  from unknown mode discover_type_unknown_tag [OF unknown mode, of "''shape''" "[]"]
  show ?thesis by simp
qed

text \<open>
  C4 (as stated) fails: the tag \<open>NUMERIC\<close> is in neither table and is not \<open>RECORD\<close>, and
  type inference returns it, with no error.
\<close>

theorem unknown_tag_passes_counterexample:
  "''NUMERIC'' \<notin> set known_tags \<and>
   discover_type (Field ''price'' ''NUMERIC'' ''REQUIRED'' []) = Inr (RawTag ''NUMERIC'') \<and>
   \<not> isl (discover_type (Field ''price'' ''NUMERIC'' ''REQUIRED'' []))"
  by (simp add: known_tags_def dict_get_def LEGACY_TO_STANDARD_def DTYPE_TO_IBIS_TYPE_def)

text \<open>
  C10. When the declared columns have been typed, the schema is built from them with
  one extra timestamp column named \<open>_PARTITIONTIME\<close> after them exactly when listing
  the partitions returns a non-empty result; when the listing is empty, or raises, the
  schema is built from the declared columns alone and the exception goes no further.
  Both schema functions behave so.
\<close>

theorem partition_column_appended:
  "column_pairs discover_type (table_schema t) = Inr pairs \<Longrightarrow>
   column_pairs dtype (table_schema t) = Inr pairs' \<Longrightarrow>
   (list_partitions t = Inr (part # parts) \<longrightarrow>
      pymapd_table_to_ibis_schema schema t =
        schema (pairs @ [(NATIVE_PARTITION_COL, dt_timestamp)]) \<and>
      pymapd_schema dtype schema t =
        schema (pairs' @ [(NATIVE_PARTITION_COL, dt_timestamp)])) \<and>
   (list_partitions t = Inr [] \<or> list_partitions t = Inl e \<longrightarrow>
      pymapd_table_to_ibis_schema schema t = schema pairs \<and>
      pymapd_schema dtype schema t = schema pairs')"
  by (auto simp: pymapd_table_to_ibis_schema_def pymapd_schema_def append_partition_col_def)

lemma declared_pairs:
  "column_pairs discover_type declared = Inr [(''a'', dt_int64), (''b'', Array dt_string)]"
  by (simp add: declared_def dict_get_def LEGACY_TO_STANDARD_def DTYPE_TO_IBIS_TYPE_def)

theorem partition_column_appended_witness:
  "pymapd_table_to_ibis_schema ibis_schema partitioned =
     Inr [(''a'', dt_int64), (''b'', Array dt_string), (''_PARTITIONTIME'', dt_timestamp)] \<and>
   pymapd_schema discover_type ibis_schema partitioned =
     Inr [(''a'', dt_int64), (''b'', Array dt_string), (''_PARTITIONTIME'', dt_timestamp)] \<and>
   pymapd_table_to_ibis_schema ibis_schema unpartitioned =
     Inr [(''a'', dt_int64), (''b'', Array dt_string)] \<and>
   pymapd_table_to_ibis_schema ibis_schema unlistable =
     Inr [(''a'', dt_int64), (''b'', Array dt_string)] \<and>
   pymapd_schema discover_type ibis_schema unlistable =
     Inr [(''a'', dt_int64), (''b'', Array dt_string)]"
proof -
  have p: "column_pairs discover_type (table_schema partitioned) =
      Inr [(''a'', dt_int64), (''b'', Array dt_string)]"
    by (simp add: partitioned_def declared_pairs)
  have u: "column_pairs discover_type (table_schema unpartitioned) =
      Inr [(''a'', dt_int64), (''b'', Array dt_string)]"
    by (simp add: unpartitioned_def declared_pairs)
  have x: "column_pairs discover_type (table_schema unlistable) =
      Inr [(''a'', dt_int64), (''b'', Array dt_string)]"
    by (simp add: unlistable_def declared_pairs)
  have lp: "list_partitions partitioned = Inr [''20180101'']"
    by (simp add: partitioned_def)
  have lu: "list_partitions unpartitioned = Inr []"
    by (simp add: unpartitioned_def)
  have lx: "list_partitions unlistable = Inl (OtherException ''NotFound'')"
    by (simp add: unlistable_def)
  from partition_column_appended [OF p p, of "''20180101''" "[]" ibis_schema]
       partition_column_appended [OF u u, of _ _ ibis_schema]
       partition_column_appended [OF x x, of _ _ ibis_schema "OtherException ''NotFound''"]
       lp lu lx
  show ?thesis
    by (simp add: ibis_schema_def NATIVE_PARTITION_COL_def)
qed

section \<open>Properties of parameter binding\<close>















section \<open>Properties of string expressions\<close>

lemma equals_operands_refl:
  "(\<And>a. a \<in> set as \<Longrightarrow> equals_operand a a) \<Longrightarrow> equals_operands as as"
  by (induction as) simp_all

lemma equals_refl: "equals s s"
  and equals_operand_refl: "equals_operand a a"
proof (induction s and a)
  case (Node k as c t)
  then show ?case by (simp add: equals_operands_refl)
qed simp_all

lemma right_differs_from_left: "\<not> equals (right s n) (left s n)"
  by (simp add: right_def left_def substr_def)

text \<open>
  C9. For every string-valued expression \<open>s\<close> and integer \<open>n\<close>, the expression built by
  \<open>left(s, n)\<close> is structurally equal to the one built by \<open>substr(s, 0, n)\<close>.
\<close>

theorem left_equals_substr: "equals (left s n) (substr s 0 n)"
  by (simp add: left_def equals_refl)

end
